theory Spec2Isabelle
  imports Complex_Main
begin

section \<open>The Vault exporter: a shallow embedding of main.go\<close>

text \<open>
  The program is one Prometheus collector. Its own code (main.go) is embedded function by
  function: the package-level descriptor variables, \<open>NewExporter\<close>, the methods
  \<open>Describe\<close> and \<open>Collect\<close> of \<open>Exporter\<close> (here \<open>Exporter_Describe\<close> and
  \<open>Exporter_Collect\<close>), \<open>bool2float\<close> and the control flow of \<open>main\<close>. The calls into the
  Prometheus client library (\<open>BuildFQName\<close>, \<open>NewDesc\<close>, \<open>MustNewConstMetric\<close>) are
  embedded after the library's documented contract, with the checks that can make them
  fail. A Go \<open>float64\<close> is a \<open>real\<close>: the program only ever writes the constants 0 and 1.
\<close>

subsection \<open>Errors, panics and the log\<close>

text \<open>A Go \<open>error\<close> value, identified by its message.\<close>

datatype error = Error string

text \<open>A panic unwinding the calling goroutine, with the error it carries.\<close>

datatype panic = Panic error

text \<open>One line written through \<open>log.Errorf\<close>: the format string and its argument.\<close>

datatype log_entry = Errorf string error

subsection \<open>The Prometheus client library\<close>

datatype ValueType = CounterValue | GaugeValue | UntypedValue

text \<open>
  A descriptor (\<open>prometheus.Desc\<close>): fully qualified name, help string, constant label
  pairs, variable label names, and the error recorded by \<open>NewDesc\<close> when the descriptor is
  malformed.
\<close>

record Desc =
  fqName :: string
  help_str :: string
  constLabelPairs :: "(string \<times> string) list"
  variableLabels :: "string list"
  err :: "error option"

text \<open>A constant metric (\<open>prometheus.constMetric\<close>): one sample.\<close>

record Metric =
  desc :: Desc
  valType :: ValueType
  val :: real
  labelPairs :: "(string \<times> string) list"

text \<open>
  \<open>prometheus.BuildFQName\<close>: joins the non-empty components with an underscore; an empty
  name gives the empty string.
\<close>

definition BuildFQName :: "string \<Rightarrow> string \<Rightarrow> string \<Rightarrow> string" where
  "BuildFQName ns subsystem name =
     (if name = [] then []
      else if ns \<noteq> [] \<and> subsystem \<noteq> [] then ns @ ''_'' @ subsystem @ ''_'' @ name
      else if ns \<noteq> [] then ns @ ''_'' @ name
      else if subsystem \<noteq> [] then subsystem @ ''_'' @ name
      else name)"

definition isAlpha :: "char \<Rightarrow> bool" where
  "isAlpha c = (c \<in> set ''abcdefghijklmnopqrstuvwxyzABCDEFGHIJKLMNOPQRSTUVWXYZ'')"

definition isDigit :: "char \<Rightarrow> bool" where
  "isDigit c = (c \<in> set ''0123456789'')"

text \<open>Metric names match \<open>[a-zA-Z_:][a-zA-Z0-9_:]*\<close>.\<close>

definition IsValidMetricName :: "string \<Rightarrow> bool" where
  "IsValidMetricName n =
     (case n of
        [] \<Rightarrow> False
      | c # cs \<Rightarrow>
          (isAlpha c \<or> c = CHR ''_'' \<or> c = CHR '':'') \<and>
          list_all (\<lambda>d. isAlpha d \<or> isDigit d \<or> d = CHR ''_'' \<or> d = CHR '':'') cs)"

text \<open>
  Label names match \<open>[a-zA-Z_][a-zA-Z0-9_]*\<close> and do not start with two underscores,
  which are reserved.
\<close>

definition checkLabelName :: "string \<Rightarrow> bool" where
  "checkLabelName l =
     (case l of
        [] \<Rightarrow> False
      | c # cs \<Rightarrow>
          (isAlpha c \<or> c = CHR ''_'') \<and>
          list_all (\<lambda>d. isAlpha d \<or> isDigit d \<or> d = CHR ''_'') cs \<and>
          take 2 l \<noteq> ''__'')"

text \<open>
  \<open>prometheus.NewDesc\<close> never fails; a malformed descriptor carries its error in \<open>err\<close>,
  and the error surfaces when the descriptor is used. The checks, in the library's order:
  the help string is not empty, the name is a metric name, every label name is a label
  name, and no label name occurs twice.
\<close>

definition NewDesc ::
  "string \<Rightarrow> string \<Rightarrow> string list \<Rightarrow> (string \<times> string) list \<Rightarrow> Desc" where
  "NewDesc fq h vls cls =
     \<lparr>fqName = fq, help_str = h, constLabelPairs = cls, variableLabels = vls,
      err =
        (if h = [] then Some (Error ''empty help string'')
         else if \<not> IsValidMetricName fq then Some (Error ''not a valid metric name'')
         else if \<not> list_all checkLabelName (map fst cls @ vls)
           then Some (Error ''not a valid label name'')
         else if \<not> distinct (map fst cls @ vls) then Some (Error ''duplicate label names'')
         else None)\<rparr>"

text \<open>
  \<open>prometheus.NewConstMetric\<close>: an error when the descriptor is invalid or when the number
  of label values differs from the number of variable labels of the descriptor; otherwise
  the sample, its label values paired with the descriptor's label names. Later versions of
  the library also reject a label value that is not valid UTF-8; the strings of a health
  response come out of the JSON decoder, which produces valid UTF-8 only, so that check is
  left out.
\<close>

definition NewConstMetric ::
  "Desc \<Rightarrow> ValueType \<Rightarrow> real \<Rightarrow> string list \<Rightarrow> error + Metric" where
  "NewConstMetric d t v labelValues =
     (case err d of
        Some e \<Rightarrow> Inl e
      | None \<Rightarrow>
          if length labelValues \<noteq> length (variableLabels d)
          then Inl (Error ''inconsistent label cardinality'')
          else Inr \<lparr>desc = d, valType = t, val = v,
                    labelPairs = constLabelPairs d @ zip (variableLabels d) labelValues\<rparr>)"

text \<open>\<open>prometheus.MustNewConstMetric\<close> panics where \<open>NewConstMetric\<close> returns an error.\<close>

definition MustNewConstMetric ::
  "Desc \<Rightarrow> ValueType \<Rightarrow> real \<Rightarrow> string list \<Rightarrow> panic + Metric" where
  "MustNewConstMetric d t v labelValues =
     (case NewConstMetric d t v labelValues of
        Inl e \<Rightarrow> Inl (Panic e)
      | Inr m \<Rightarrow> Inr m)"

subsection \<open>The Vault client library\<close>

text \<open>
  The fields of \<open>vault_api.HealthResponse\<close> that the exporter reads.
\<close>

record HealthResponse =
  Initialized :: bool
  Sealed :: bool
  Standby :: bool
  Version :: string
  ClusterName :: string
  ClusterID :: string

subsection \<open>Package-level variables and the exporter\<close>

definition namespace :: string where
  "namespace = ''vault''"

text \<open>
  The \<open>var\<close> block of main.go. Go variables can be assigned, so the seven descriptors live
  in the process state; \<open>package_init\<close> is their initialisation.
\<close>

record package_vars =
  up :: Desc
  initialized :: Desc
  sealed :: Desc
  standby :: Desc
  ver :: Desc
  clusterName :: Desc
  clusterID :: Desc

definition package_init :: package_vars where
  "package_init =
     \<lparr>up = NewDesc (BuildFQName namespace '''' ''up'')
             ''Was the last query of Vault successful.'' [] [],
      initialized = NewDesc (BuildFQName namespace '''' ''initialized'')
             ''Is the Vault initialised (according to this node).'' [] [],
      sealed = NewDesc (BuildFQName namespace '''' ''sealed'')
             ''Is the Vault node sealed.'' [] [],
      standby = NewDesc (BuildFQName namespace '''' ''standby'')
             ''Is this Vault node in standby.'' [] [],
      ver = NewDesc (BuildFQName namespace '''' ''version'')
             ''Version of this Vault node.'' [''version''] [],
      clusterName = NewDesc (BuildFQName namespace '''' ''cluster_name'')
             ''Cluster name according to this Vault node.'' [''cluster_name''] [],
      clusterID = NewDesc (BuildFQName namespace '''' ''cluster_id'')
             ''Cluster ID according to this Vault node.'' [''cluster_id''] []\<rparr>"

text \<open>The exporter holds the Vault client; \<open>'c\<close> is the client type.\<close>

record 'c Exporter =
  client :: 'c

text \<open>
  The process state a scrape can touch: the exporter object behind the receiver pointer,
  the package variables, and the log.
\<close>

record 'c state =
  exporter :: "'c Exporter"
  vars :: package_vars
  logged :: "log_entry list"

definition init_state :: "'c Exporter \<Rightarrow> 'c state" where
  "init_state e = \<lparr>exporter = e, vars = package_init, logged = []\<rparr>"

text \<open>
  \<open>NewExporter\<close>. The argument is what \<open>vault_api.NewClient(vault_api.DefaultConfig())\<close>
  returns in the environment of the process.
\<close>

definition NewExporter :: "error + 'c \<Rightarrow> error + 'c Exporter" where
  "NewExporter newClient =
     (case newClient of
        Inl e \<Rightarrow> Inl e
      | Inr c \<Rightarrow> Inr \<lparr>client = c\<rparr>)"

text \<open>
  \<open>Exporter_Describe\<close> sends the seven descriptors, read from the package variables, on the
  channel. It returns the channel and the state.
\<close>

definition Exporter_Describe :: "Desc list \<Rightarrow> 'c state \<Rightarrow> Desc list \<times> 'c state" where
  "Exporter_Describe ch s =
     (ch @ [up (vars s), initialized (vars s), sealed (vars s), standby (vars s),
            ver (vars s), clusterName (vars s), clusterID (vars s)], s)"

definition bool2float :: "bool \<Rightarrow> real" where
  "bool2float b = (if b then 1 else 0)"

text \<open>
  The statements of \<open>Exporter_Collect\<close> run one after the other on the metric channel and the
  state; a panic stops the run.
\<close>

type_synonym 'c scrape = "Metric list \<times> 'c state"

fun steps :: "('a \<Rightarrow> panic + 'a) list \<Rightarrow> 'a \<Rightarrow> panic + 'a" where
  "steps [] p = Inr p"
| "steps (f # fs) p = (case f p of Inl pn \<Rightarrow> Inl pn | Inr p' \<Rightarrow> steps fs p')"

text \<open>\<open>ch <- m\<close>, where building \<open>m\<close> may panic.\<close>

definition send :: "('c state \<Rightarrow> panic + Metric) \<Rightarrow> 'c scrape \<Rightarrow> panic + 'c scrape" where
  "send mk p =
     (case mk (snd p) of
        Inl pn \<Rightarrow> Inl pn
      | Inr m \<Rightarrow> Inr (fst p @ [m], snd p))"

definition log_Errorf :: "string \<Rightarrow> error \<Rightarrow> 'c scrape \<Rightarrow> panic + 'c scrape" where
  "log_Errorf fmt e p = Inr (fst p, (snd p)\<lparr>logged := logged (snd p) @ [Errorf fmt e]\<rparr>)"

text \<open>
  \<open>Exporter_Collect\<close>. \<open>Health\<close> is the upstream at the instant of the scrape: what
  \<open>e.client.Sys().Health()\<close> returns for the client it is called on.
\<close>

definition Exporter_Collect ::
  "('c \<Rightarrow> error + HealthResponse) \<Rightarrow> Metric list \<Rightarrow> 'c state \<Rightarrow> panic + 'c scrape" where
  "Exporter_Collect Health ch s =
     (case Health (client (exporter s)) of
        Inl e \<Rightarrow>
          steps
            [send (\<lambda>s. MustNewConstMetric (up (vars s)) GaugeValue 0 []),
             log_Errorf ''Failted to collect health from Vault server: %v'' e]
            (ch, s)
      | Inr health \<Rightarrow>
          steps
            [send (\<lambda>s. MustNewConstMetric (up (vars s)) GaugeValue 1 []),
             send (\<lambda>s. MustNewConstMetric (initialized (vars s)) GaugeValue
                          (bool2float (Initialized health)) []),
             send (\<lambda>s. MustNewConstMetric (sealed (vars s)) GaugeValue
                          (bool2float (Sealed health)) []),
             send (\<lambda>s. MustNewConstMetric (standby (vars s)) GaugeValue
                          (bool2float (Standby health)) []),
             send (\<lambda>s. MustNewConstMetric (ver (vars s)) GaugeValue 1 [Version health]),
             send (\<lambda>s. MustNewConstMetric (clusterName (vars s)) GaugeValue 1
                          [ClusterName health]),
             send (\<lambda>s. MustNewConstMetric (clusterID (vars s)) GaugeValue 1
                          [ClusterID health])]
            (ch, s))"

subsection \<open>The exposition layer and the process\<close>

text \<open>
  What the registry asks of the collector: a description, or a scrape with the upstream's
  answer at that instant. Every call gets a fresh channel; a panic in a call ends the
  process.
\<close>

datatype call = Call_Describe | Call_Collect "error + HealthResponse"

fun serve :: "call list \<Rightarrow> 'c state \<Rightarrow> panic + 'c state" where
  "serve [] s = Inr s"
| "serve (Call_Describe # cs) s = serve cs (snd (Exporter_Describe [] s))"
| "serve (Call_Collect r # cs) s =
     (case Exporter_Collect (\<lambda>_. r) [] s of
        Inl pn \<Rightarrow> Inl pn
      | Inr p \<Rightarrow> serve cs (snd p))"

text \<open>
  \<open>main\<close> calls, in this order, the flag parser, \<open>NewExporter\<close>, the registry, the HTTP
  multiplexer (twice) and the HTTP server. These libraries are the environment of the
  process, and each call that can end the process is a field of \<open>env\<close>:
  \<^item> \<open>kingpin_Parse\<close>: the parsed flags, or the usage error on which \<open>kingpin.Parse\<close>
    terminates the process;
  \<^item> \<open>vault_api_NewClient\<close>: what \<open>vault_api.NewClient(vault_api.DefaultConfig())\<close> returns;
  \<^item> \<open>prometheus_Register\<close>: the error, if any, with which the default registry refuses a
    collector that describes itself by the given descriptors (\<open>MustRegister\<close> panics with it);
  \<^item> \<open>http_DefaultServeMux\<close>: the patterns registered before \<open>main\<close> runs (by the \<open>init\<close>
    of \<open>net/http/pprof\<close>), and \<open>http_Handle\<close>: the multiplexer with one more pattern, or
    the value with which \<open>http.Handle\<close> and \<open>http.HandleFunc\<close> panic;
  \<^item> \<open>http_ListenAndServe\<close>: the error with which the server returns on the given address,
    \<open>None\<close> while it is serving.
  The \<open>log.Infoln\<close> lines and the \<open>kingpin\<close> declarations cannot fail and are left out.
\<close>

record flags =
  listenAddress :: string
  metricsPath :: string

record 'c env =
  kingpin_Parse :: "error + flags"
  vault_api_NewClient :: "error + 'c"
  prometheus_Register :: "Desc list \<Rightarrow> error option"
  http_DefaultServeMux :: "string list"
  http_Handle :: "string \<Rightarrow> string list \<Rightarrow> error + string list"
  http_ListenAndServe :: "string \<Rightarrow> error option"

text \<open>
  How \<open>main\<close> ends: \<open>kingpin\<close> terminated the process, \<open>log.Fatalln\<close> on the error of
  \<open>NewExporter\<close>, a panic, \<open>log.Fatal\<close> on the error of the server, or the process is
  serving scrapes with the exporter registered.
\<close>

datatype 'c outcome =
  Terminated error | Fatalln error | Panicked panic | Fatal error | Serving "'c state"

definition main :: "'c env \<Rightarrow> 'c outcome" where
  "main env =
     (case kingpin_Parse env of
        Inl e \<Rightarrow> Terminated e
      | Inr fl \<Rightarrow>
          (case NewExporter (vault_api_NewClient env) of
             Inl e \<Rightarrow> Fatalln e
           | Inr ex \<Rightarrow>
               (case prometheus_Register env (fst (Exporter_Describe [] (init_state ex))) of
                  Some e \<Rightarrow> Panicked (Panic e)
                | None \<Rightarrow>
                    (case http_Handle env (metricsPath fl) (http_DefaultServeMux env) of
                       Inl e \<Rightarrow> Panicked (Panic e)
                     | Inr mux \<Rightarrow>
                         (case http_Handle env ''/'' mux of
                            Inl e \<Rightarrow> Panicked (Panic e)
                          | Inr mux' \<Rightarrow>
                              (case http_ListenAndServe env (listenAddress fl) of
                                 Some e \<Rightarrow> Fatal e
                               | None \<Rightarrow> Serving (init_state ex)))))))"

fun is_fatal :: "'c outcome \<Rightarrow> bool" where
  "is_fatal (Serving s) = False"
| "is_fatal other = True"

section \<open>Auxiliary facts\<close>

lemmas lib_defs = package_init_def NewDesc_def BuildFQName_def namespace_def
  IsValidMetricName_def checkLabelName_def isAlpha_def isDigit_def

lemma up_init: "up package_init =
  \<lparr>fqName = ''vault_up'', help_str = ''Was the last query of Vault successful.'',
   constLabelPairs = [], variableLabels = [], err = None\<rparr>"
  by (simp add: lib_defs)

lemma initialized_init: "initialized package_init =
  \<lparr>fqName = ''vault_initialized'',
   help_str = ''Is the Vault initialised (according to this node).'',
   constLabelPairs = [], variableLabels = [], err = None\<rparr>"
  by (simp add: lib_defs)

lemma sealed_init: "sealed package_init =
  \<lparr>fqName = ''vault_sealed'', help_str = ''Is the Vault node sealed.'',
   constLabelPairs = [], variableLabels = [], err = None\<rparr>"
  by (simp add: lib_defs)

lemma standby_init: "standby package_init =
  \<lparr>fqName = ''vault_standby'', help_str = ''Is this Vault node in standby.'',
   constLabelPairs = [], variableLabels = [], err = None\<rparr>"
  by (simp add: lib_defs)

lemma ver_init: "ver package_init =
  \<lparr>fqName = ''vault_version'', help_str = ''Version of this Vault node.'',
   constLabelPairs = [], variableLabels = [''version''], err = None\<rparr>"
  by (simp add: lib_defs)

lemma clusterName_init: "clusterName package_init =
  \<lparr>fqName = ''vault_cluster_name'', help_str = ''Cluster name according to this Vault node.'',
   constLabelPairs = [], variableLabels = [''cluster_name''], err = None\<rparr>"
  by (simp add: lib_defs)

lemma clusterID_init: "clusterID package_init =
  \<lparr>fqName = ''vault_cluster_id'', help_str = ''Cluster ID according to this Vault node.'',
   constLabelPairs = [], variableLabels = [''cluster_id''], err = None\<rparr>"
  by (simp add: lib_defs)

lemmas init_descs = up_init initialized_init sealed_init standby_init ver_init
  clusterName_init clusterID_init

lemma MustNewConstMetric_Inr:
  "err d = None \<Longrightarrow> length lvs = length (variableLabels d) \<Longrightarrow>
   MustNewConstMetric d t v lvs =
     Inr \<lparr>desc = d, valType = t, val = v,
          labelPairs = constLabelPairs d @ zip (variableLabels d) lvs\<rparr>"
  by (simp add: MustNewConstMetric_def NewConstMetric_def)

lemma MustNewConstMetric_iff:
  "(\<exists>m. MustNewConstMetric d t v lvs = Inr m) \<longleftrightarrow>
   err d = None \<and> length lvs = length (variableLabels d)"
  by (auto simp: MustNewConstMetric_def NewConstMetric_def split: option.splits)

lemma Collect_Inl:
  assumes "vars s = package_init" and "Health (client (exporter s)) = Inl e"
  shows "Exporter_Collect Health ch s =
    Inr (ch @ [\<lparr>desc = up package_init, valType = GaugeValue, val = 0, labelPairs = []\<rparr>],
         s\<lparr>logged := logged s @
             [Errorf ''Failted to collect health from Vault server: %v'' e]\<rparr>)"
  using assms
  by (simp add: Exporter_Collect_def send_def log_Errorf_def MustNewConstMetric_Inr init_descs)

lemma Collect_Inr:
  assumes "vars s = package_init" and "Health (client (exporter s)) = Inr h"
  shows "Exporter_Collect Health ch s =
    Inr (ch @
         [\<lparr>desc = up package_init, valType = GaugeValue, val = 1, labelPairs = []\<rparr>,
          \<lparr>desc = initialized package_init, valType = GaugeValue,
           val = bool2float (Initialized h), labelPairs = []\<rparr>,
          \<lparr>desc = sealed package_init, valType = GaugeValue,
           val = bool2float (Sealed h), labelPairs = []\<rparr>,
          \<lparr>desc = standby package_init, valType = GaugeValue,
           val = bool2float (Standby h), labelPairs = []\<rparr>,
          \<lparr>desc = ver package_init, valType = GaugeValue, val = 1,
           labelPairs = [(''version'', Version h)]\<rparr>,
          \<lparr>desc = clusterName package_init, valType = GaugeValue, val = 1,
           labelPairs = [(''cluster_name'', ClusterName h)]\<rparr>,
          \<lparr>desc = clusterID package_init, valType = GaugeValue, val = 1,
           labelPairs = [(''cluster_id'', ClusterID h)]\<rparr>], s)"
  using assms
  by (simp add: Exporter_Collect_def send_def MustNewConstMetric_Inr init_descs)

lemma send_frame: "send mk p = Inr p' \<Longrightarrow> snd p' = snd p"
  by (auto simp: send_def split: sum.splits)

lemma log_Errorf_frame:
  "log_Errorf fmt e p = Inr p' \<Longrightarrow>
   exporter (snd p') = exporter (snd p) \<and> vars (snd p') = vars (snd p)"
  by (auto simp: log_Errorf_def)

lemma steps_inv:
  "(\<forall>f\<in>set fs. \<forall>q q'. f q = Inr q' \<longrightarrow> P q \<longrightarrow> P q') \<Longrightarrow>
   steps fs p = Inr p' \<Longrightarrow> P p \<Longrightarrow> P p'"
proof (induction fs arbitrary: p)
  case Nil
  then show ?case by simp
next
  case (Cons f fs)
  from Cons.prems(2) obtain q where q: "f p = Inr q" and rest: "steps fs q = Inr p'"
    by (auto split: sum.splits)
  from Cons.prems(1) q Cons.prems(3) have "P q" by simp
  moreover from Cons.prems(1) have "\<forall>f\<in>set fs. \<forall>q q'. f q = Inr q' \<longrightarrow> P q \<longrightarrow> P q'"
    by simp
  ultimately show ?case using Cons.IH rest by blast
qed

lemma send_inv:
  "send mk q = Inr q' \<Longrightarrow> exporter (snd q) = e0 \<and> vars (snd q) = v0 \<Longrightarrow>
   exporter (snd q') = e0 \<and> vars (snd q') = v0"
  by (auto dest: send_frame)

lemma log_Errorf_inv:
  "log_Errorf fmt e q = Inr q' \<Longrightarrow> exporter (snd q) = e0 \<and> vars (snd q) = v0 \<Longrightarrow>
   exporter (snd q') = e0 \<and> vars (snd q') = v0"
  by (auto dest: log_Errorf_frame)

lemma Collect_frame:
  assumes "Exporter_Collect Health ch s = Inr (ms, s')"
  shows "exporter s' = exporter s \<and> vars s' = vars s"
proof -
  let ?P = "\<lambda>q :: 'a scrape. exporter (snd q) = exporter s \<and> vars (snd q) = vars s"
  show ?thesis
  proof (cases "Health (client (exporter s))")
    case (Inl e)
    with assms have run: "steps
        [send (\<lambda>s. MustNewConstMetric (up (vars s)) GaugeValue 0 []),
         log_Errorf ''Failted to collect health from Vault server: %v'' e]
        (ch, s) = Inr (ms, s')"
      by (simp add: Exporter_Collect_def del: steps.simps)
    have "?P (ms, s')"
      by (rule steps_inv[where P = ?P, OF _ run]) (auto dest: send_frame log_Errorf_frame)
    then show ?thesis by simp
  next
    case (Inr h)
    with assms have run: "steps
        [send (\<lambda>s. MustNewConstMetric (up (vars s)) GaugeValue 1 []),
         send (\<lambda>s. MustNewConstMetric (initialized (vars s)) GaugeValue
                      (bool2float (Initialized h)) []),
         send (\<lambda>s. MustNewConstMetric (sealed (vars s)) GaugeValue
                      (bool2float (Sealed h)) []),
         send (\<lambda>s. MustNewConstMetric (standby (vars s)) GaugeValue
                      (bool2float (Standby h)) []),
         send (\<lambda>s. MustNewConstMetric (ver (vars s)) GaugeValue 1 [Version h]),
         send (\<lambda>s. MustNewConstMetric (clusterName (vars s)) GaugeValue 1
                      [ClusterName h]),
         send (\<lambda>s. MustNewConstMetric (clusterID (vars s)) GaugeValue 1
                      [ClusterID h])]
        (ch, s) = Inr (ms, s')"
      by (simp add: Exporter_Collect_def del: steps.simps)
    have "?P (ms, s')"
      by (rule steps_inv[where P = ?P, OF _ run]) (auto dest: send_frame log_Errorf_frame)
    then show ?thesis by simp
  qed
qed

lemma Describe_frame: "snd (Exporter_Describe ch s) = s"
  by (simp add: Exporter_Describe_def)

lemma serve_init:
  "vars s = package_init \<Longrightarrow>
   \<exists>s'. serve calls s = Inr s' \<and> exporter s' = exporter s \<and> vars s' = package_init"
proof (induction calls arbitrary: s)
  case Nil
  then show ?case by simp
next
  case (Cons c cs)
  show ?case
  proof (cases c)
    case Call_Describe
    with Cons show ?thesis by (simp add: Exporter_Describe_def)
  next
    case (Call_Collect r)
    show ?thesis
    proof (cases r)
      case (Inl e)
      let ?s1 = "s\<lparr>logged := logged s @
                   [Errorf ''Failted to collect health from Vault server: %v'' e]\<rparr>"
      have "\<exists>ms. Exporter_Collect (\<lambda>_. r) [] s = Inr (ms, ?s1)"
        using Collect_Inl[of s "\<lambda>_. r" e "[]"] Cons.prems Inl by simp
      with Cons.IH[of ?s1] Cons.prems Call_Collect
      show ?thesis by auto
    next
      case (Inr h)
      have "\<exists>ms. Exporter_Collect (\<lambda>_. r) [] s = Inr (ms, s)"
        using Collect_Inr[of s "\<lambda>_. r" h "[]"] Cons.prems Inr by simp
      with Cons.IH[of s] Cons.prems Call_Collect
      show ?thesis by auto
    qed
  qed
qed

lemma Collect_cong:
  "vars t = vars s \<Longrightarrow> Health' (client (exporter t)) = Health (client (exporter s)) \<Longrightarrow>
   map_sum id fst (Exporter_Collect Health' ch t) =
   map_sum id fst (Exporter_Collect Health ch s)"
  by (auto simp: Exporter_Collect_def send_def log_Errorf_def split: sum.splits)

lemma serve_total: "\<exists>s'. serve calls (init_state ex) = Inr s'"
  using serve_init[of "init_state ex" calls] by (auto simp: init_state_def)

section \<open>Properties of the collector\<close>

text \<open>
  C1. When the upstream health query fails, whatever the error, \<open>Collect\<close> sends exactly
  one sample, the gauge \<open>vault_up\<close> with value 0 and no label, and returns normally: the
  result is a channel and a state, not a panic, and the error is not part of what the
  caller receives. The sample does not depend on the error.
\<close>

theorem Collect_failure_only_up_zero:
  assumes "vars s = package_init" and "Health (client (exporter s)) = Inl e"
  shows "\<exists>s'. Exporter_Collect Health ch s =
           Inr (ch @ [\<lparr>desc = up package_init, valType = GaugeValue, val = 0,
                       labelPairs = []\<rparr>], s') \<and>
         fqName (up package_init) = ''vault_up''"
  using assms Collect_Inl[of s Health e ch] by (simp add: up_init)

theorem Collect_failure_only_up_zero_witness:
  "vars (init_state \<lparr>client = ()\<rparr>) = package_init \<and>
   (\<exists>s'. Exporter_Collect (\<lambda>c. Inl (Error ''context deadline exceeded'')) []
           (init_state \<lparr>client = ()\<rparr>) =
         Inr ([\<lparr>desc = up package_init, valType = GaugeValue, val = 0, labelPairs = []\<rparr>],
              s'))"
  using Collect_failure_only_up_zero[of "init_state \<lparr>client = ()\<rparr>"
      "\<lambda>c. Inl (Error ''context deadline exceeded'')" "Error ''context deadline exceeded''"
      "[]"]
  by (simp add: init_state_def)

text \<open>
  C2. When the upstream health query succeeds, \<open>Collect\<close> sends exactly seven samples:
  first \<open>vault_up\<close> with value 1 and no label, then one sample for each of the other six
  descriptors of the catalog, in its order. In both branches, success and failure, exactly
  one of the samples sent carries the descriptor \<open>up\<close>.
\<close>

theorem Collect_success_seven_samples:
  assumes "vars s = package_init"
  shows "\<exists>ms s'. Exporter_Collect Health [] s = Inr (ms, s') \<and>
           length (filter (\<lambda>m. desc m = up package_init) ms) = 1 \<and>
           (\<forall>h. Health (client (exporter s)) = Inr h \<longrightarrow>
              length ms = 7 \<and>
              hd ms = \<lparr>desc = up package_init, valType = GaugeValue, val = 1,
                        labelPairs = []\<rparr> \<and>
              map desc (tl ms) =
                [initialized package_init, sealed package_init, standby package_init,
                 ver package_init, clusterName package_init, clusterID package_init])"
proof (cases "Health (client (exporter s))")
  case (Inl e)
  from assms Collect_Inl[of s Health e "[]"] Inl show ?thesis by simp
next
  case (Inr h)
  from assms Collect_Inr[of s Health h "[]"] Inr show ?thesis by (simp add: init_descs)
qed

theorem Collect_success_seven_samples_witness:
  "vars (init_state \<lparr>client = ()\<rparr>) = package_init \<and>
   (\<exists>ms s'. Exporter_Collect
        (\<lambda>c. Inr \<lparr>Initialized = True, Sealed = False, Standby = False,
                    Version = ''1.4.0'', ClusterName = ''c1'', ClusterID = ''id1''\<rparr>)
        [] (init_state \<lparr>client = ()\<rparr>) = Inr (ms, s') \<and>
      length (filter (\<lambda>m. desc m = up package_init) ms) = 1 \<and>
      length ms = 7 \<and>
      hd ms = \<lparr>desc = up package_init, valType = GaugeValue, val = 1, labelPairs = []\<rparr> \<and>
      map desc (tl ms) =
        [initialized package_init, sealed package_init, standby package_init,
         ver package_init, clusterName package_init, clusterID package_init])"
  using Collect_success_seven_samples[of "init_state \<lparr>client = ()\<rparr>"
      "\<lambda>c. Inr \<lparr>Initialized = True, Sealed = False, Standby = False,
                  Version = ''1.4.0'', ClusterName = ''c1'', ClusterID = ''id1''\<rparr>"]
  by (simp add: init_state_def)

text \<open>
  C3. \<open>Describe\<close> takes no upstream and cannot fail: its result is a channel and the
  unchanged state. After any sequence of earlier \<open>Describe\<close> and \<open>Collect\<close> calls, with
  any upstream answers, failures included, it sends the same seven descriptors: \<open>vault_up\<close>,
  \<open>vault_initialized\<close>, \<open>vault_sealed\<close> and \<open>vault_standby\<close> without label keys,
  and \<open>vault_version\<close>, \<open>vault_cluster_name\<close> and \<open>vault_cluster_id\<close> each with one label
  key, the name that follows the namespace in the descriptor's own name.
\<close>

theorem Describe_fixed_catalog:
  "\<exists>s'. serve calls (init_state e) = Inr s' \<and>
     Exporter_Describe ch s' =
       (ch @ [up package_init, initialized package_init, sealed package_init,
              standby package_init, ver package_init, clusterName package_init,
              clusterID package_init], s') \<and>
     map (\<lambda>d. (fqName d, variableLabels d))
       [up package_init, initialized package_init, sealed package_init,
        standby package_init, ver package_init, clusterName package_init,
        clusterID package_init] =
       [(''vault_up'', []), (''vault_initialized'', []), (''vault_sealed'', []),
        (''vault_standby'', []), (''vault_version'', [''version'']),
        (''vault_cluster_name'', [''cluster_name'']),
        (''vault_cluster_id'', [''cluster_id''])] \<and>
     map fqName [ver package_init, clusterName package_init, clusterID package_init] =
       map (BuildFQName namespace [])
         (concat (map variableLabels
            [ver package_init, clusterName package_init, clusterID package_init]))"
proof -
  have "vars (init_state e) = package_init" by (simp add: init_state_def)
  from serve_init[OF this, of calls] obtain s'
    where "serve calls (init_state e) = Inr s'" and "vars s' = package_init" by blast
  then show ?thesis
    by (simp add: Exporter_Describe_def init_descs BuildFQName_def namespace_def)
qed

text \<open>
  C4. On a successful health snapshot \<open>h\<close>, the three samples after \<open>vault_up\<close> are
  \<open>vault_initialized\<close>, \<open>vault_sealed\<close> and \<open>vault_standby\<close>, each with value 1 when
  the field of \<open>h\<close> is true and 0 when it is false.
\<close>

theorem Collect_bool_samples:
  assumes "vars s = package_init" and "Health (client (exporter s)) = Inr h"
  shows "\<exists>ms s'. Exporter_Collect Health [] s = Inr (ms, s') \<and>
           map (\<lambda>m. (fqName (desc m), val m)) (take 3 (tl ms)) =
             [(''vault_initialized'', if Initialized h then 1 else 0),
              (''vault_sealed'', if Sealed h then 1 else 0),
              (''vault_standby'', if Standby h then 1 else 0)]"
  using assms Collect_Inr[of s Health h "[]"] by (simp add: init_descs bool2float_def)

theorem Collect_bool_samples_witness:
  "vars (init_state \<lparr>client = ()\<rparr>) = package_init \<and>
   (\<exists>ms s'. Exporter_Collect
        (\<lambda>c. Inr \<lparr>Initialized = True, Sealed = False, Standby = True,
                    Version = ''1.2.3'', ClusterName = ''prod-a'', ClusterID = ''abc-1''\<rparr>)
        [] (init_state \<lparr>client = ()\<rparr>) = Inr (ms, s') \<and>
      map (\<lambda>m. (fqName (desc m), val m)) (take 3 (tl ms)) =
        [(''vault_initialized'', 1), (''vault_sealed'', 0), (''vault_standby'', 1)])"
  using Collect_bool_samples[of "init_state \<lparr>client = ()\<rparr>"
      "\<lambda>c. Inr \<lparr>Initialized = True, Sealed = False, Standby = True,
                  Version = ''1.2.3'', ClusterName = ''prod-a'', ClusterID = ''abc-1''\<rparr>"
      "\<lparr>Initialized = True, Sealed = False, Standby = True,
        Version = ''1.2.3'', ClusterName = ''prod-a'', ClusterID = ''abc-1''\<rparr>"]
  by (simp add: init_state_def)

text \<open>
  C5. On a successful health snapshot \<open>h\<close>, the last three samples are \<open>vault_version\<close>,
  \<open>vault_cluster_name\<close> and \<open>vault_cluster_id\<close>; each has value 1 and a single label
  whose value is the field of \<open>h\<close>, whatever string that is.
\<close>

theorem Collect_label_samples:
  assumes "vars s = package_init" and "Health (client (exporter s)) = Inr h"
  shows "\<exists>ms s'. Exporter_Collect Health [] s = Inr (ms, s') \<and>
           map (\<lambda>m. (fqName (desc m), val m, labelPairs m)) (drop 4 ms) =
             [(''vault_version'', 1, [(''version'', Version h)]),
              (''vault_cluster_name'', 1, [(''cluster_name'', ClusterName h)]),
              (''vault_cluster_id'', 1, [(''cluster_id'', ClusterID h)])]"
  using assms Collect_Inr[of s Health h "[]"] by (simp add: init_descs)

theorem Collect_label_samples_witness:
  "vars (init_state \<lparr>client = ()\<rparr>) = package_init \<and>
   (\<exists>ms s'. Exporter_Collect
        (\<lambda>c. Inr \<lparr>Initialized = True, Sealed = False, Standby = True,
                    Version = ''1.2.3'', ClusterName = ''prod-a'', ClusterID = ''abc-1''\<rparr>)
        [] (init_state \<lparr>client = ()\<rparr>) = Inr (ms, s') \<and>
      map (\<lambda>m. (fqName (desc m), val m, labelPairs m)) (drop 4 ms) =
        [(''vault_version'', 1, [(''version'', ''1.2.3'')]),
         (''vault_cluster_name'', 1, [(''cluster_name'', ''prod-a'')]),
         (''vault_cluster_id'', 1, [(''cluster_id'', ''abc-1'')])])"
  using Collect_label_samples[of "init_state \<lparr>client = ()\<rparr>"
      "\<lambda>c. Inr \<lparr>Initialized = True, Sealed = False, Standby = True,
                  Version = ''1.2.3'', ClusterName = ''prod-a'', ClusterID = ''abc-1''\<rparr>"
      "\<lparr>Initialized = True, Sealed = False, Standby = True,
        Version = ''1.2.3'', ClusterName = ''prod-a'', ClusterID = ''abc-1''\<rparr>"]
  by (simp add: init_state_def)

text \<open>
  C6. Two \<open>Collect\<close> calls in a row against the same upstream answer, the second in the
  state the first left, both return and send the same samples: equal descriptors, values
  and label values. This holds for a snapshot and for a failure.
\<close>

theorem Collect_idempotent:
  assumes "vars s = package_init"
  shows "\<exists>ms s1 s2. Exporter_Collect Health ch s = Inr (ch @ ms, s1) \<and>
           Exporter_Collect Health ch' s1 = Inr (ch' @ ms, s2)"
proof (cases "Health (client (exporter s))")
  case (Inl e)
  let ?s1 = "s\<lparr>logged := logged s @
               [Errorf ''Failted to collect health from Vault server: %v'' e]\<rparr>"
  have "Exporter_Collect Health ch s =
          Inr (ch @ [\<lparr>desc = up package_init, valType = GaugeValue, val = 0,
                      labelPairs = []\<rparr>], ?s1)"
    using assms Inl Collect_Inl[of s Health e ch] by simp
  moreover have "\<exists>s2. Exporter_Collect Health ch' ?s1 =
          Inr (ch' @ [\<lparr>desc = up package_init, valType = GaugeValue, val = 0,
                       labelPairs = []\<rparr>], s2)"
    using assms Inl Collect_Inl[of ?s1 Health e ch'] by simp
  ultimately show ?thesis by blast
next
  case (Inr h)
  from assms Inr Collect_Inr[of s Health h ch] Collect_Inr[of s Health h ch']
  show ?thesis by simp
qed

theorem Collect_idempotent_witness:
  "vars (init_state \<lparr>client = ()\<rparr>) = package_init \<and>
   (\<exists>ms s1 s2.
      Exporter_Collect (\<lambda>c. Inl (Error ''connection refused'')) []
        (init_state \<lparr>client = ()\<rparr>) = Inr (ms, s1) \<and>
      Exporter_Collect (\<lambda>c. Inl (Error ''connection refused'')) [] s1 = Inr (ms, s2))"
  using Collect_idempotent[of "init_state \<lparr>client = ()\<rparr>"
      "\<lambda>c. Inl (Error ''connection refused'')" "[]" "[]"]
  by (simp add: init_state_def)

text \<open>
  C7. On a successful scrape the descriptors of the samples, in the order sent, are the
  descriptors that \<open>Describe\<close> sends, in its order: up, initialized, sealed, standby,
  version, cluster_name, cluster_id. The order does not depend on the snapshot.
\<close>

theorem Collect_catalog_order:
  assumes "vars s = package_init" and "Health (client (exporter s)) = Inr h"
  shows "\<exists>ms s'. Exporter_Collect Health [] s = Inr (ms, s') \<and>
           map desc ms = fst (Exporter_Describe [] s) \<and>
           map (\<lambda>m. fqName (desc m)) ms =
             [''vault_up'', ''vault_initialized'', ''vault_sealed'', ''vault_standby'',
              ''vault_version'', ''vault_cluster_name'', ''vault_cluster_id'']"
  using assms Collect_Inr[of s Health h "[]"]
  by (simp add: init_descs Exporter_Describe_def)

theorem Collect_catalog_order_witness:
  "vars (init_state \<lparr>client = ()\<rparr>) = package_init \<and>
   (\<exists>ms s'. Exporter_Collect
        (\<lambda>c. Inr \<lparr>Initialized = True, Sealed = True, Standby = False,
                    Version = ''0.9.1'', ClusterName = [], ClusterID = []\<rparr>)
        [] (init_state \<lparr>client = ()\<rparr>) = Inr (ms, s') \<and>
      map desc ms = fst (Exporter_Describe [] (init_state \<lparr>client = ()\<rparr>)) \<and>
      map (\<lambda>m. fqName (desc m)) ms =
        [''vault_up'', ''vault_initialized'', ''vault_sealed'', ''vault_standby'',
         ''vault_version'', ''vault_cluster_name'', ''vault_cluster_id''])"
  using Collect_catalog_order[of "init_state \<lparr>client = ()\<rparr>"
      "\<lambda>c. Inr \<lparr>Initialized = True, Sealed = True, Standby = False,
                  Version = ''0.9.1'', ClusterName = [], ClusterID = []\<rparr>"
      "\<lparr>Initialized = True, Sealed = True, Standby = False,
        Version = ''0.9.1'', ClusterName = [], ClusterID = []\<rparr>"]
  by (simp add: init_state_def)

text \<open>
  C8. \<open>NewExporter\<close> returns an error exactly when the construction of the Vault client
  does, and then that error; otherwise it returns an exporter holding that client. \<open>main\<close>
  ends in \<open>log.Fatalln\<close> exactly when the flags were parsed and the construction failed,
  with the error of the construction. The flag parser, the registry, the HTTP multiplexer
  and the HTTP server are collaborators outside the collector; when none of them ends the
  process, \<open>main\<close> is fatal exactly when the construction fails, and otherwise serves with
  the exporter that holds the client. From then on no sequence of \<open>Describe\<close> and
  \<open>Collect\<close> calls, whatever the upstream answers, ends in a panic.
\<close>

theorem NewExporter_only_fatal_error:
  fixes env :: "'c env"
  shows "isl (NewExporter nc) = isl nc \<and>
         (\<forall>e. nc = Inl e \<longrightarrow> NewExporter nc = Inl e) \<and>
         (\<forall>c. nc = Inr c \<longrightarrow> NewExporter nc = Inr \<lparr>client = c\<rparr>) \<and>
         (\<forall>e. main env = Fatalln e \<longleftrightarrow>
            (\<exists>fl. kingpin_Parse env = Inr fl) \<and> vault_api_NewClient env = Inl e) \<and>
         (\<forall>fl mux mux'.
            kingpin_Parse env = Inr fl \<and>
            (\<forall>ex :: 'c Exporter.
               prometheus_Register env (fst (Exporter_Describe [] (init_state ex))) = None) \<and>
            http_Handle env (metricsPath fl) (http_DefaultServeMux env) = Inr mux \<and>
            http_Handle env ''/'' mux = Inr mux' \<and>
            http_ListenAndServe env (listenAddress fl) = None \<longrightarrow>
            (is_fatal (main env) \<longleftrightarrow> isl (vault_api_NewClient env)) \<and>
            (\<forall>c. vault_api_NewClient env = Inr c \<longrightarrow>
               main env = Serving (init_state \<lparr>client = c\<rparr>))) \<and>
         (\<forall>ex calls. \<exists>s'. serve calls (init_state ex) = Inr s')"
proof -
  have new: "isl (NewExporter nc) = isl nc"
    "\<forall>e. nc = Inl e \<longrightarrow> NewExporter nc = Inl e"
    "\<forall>c. nc = Inr c \<longrightarrow> NewExporter nc = Inr \<lparr>client = c\<rparr>"
    by (cases nc; simp add: NewExporter_def)+
  have fatalln: "\<forall>e. main env = Fatalln e \<longleftrightarrow>
      (\<exists>fl. kingpin_Parse env = Inr fl) \<and> vault_api_NewClient env = Inl e"
    by (auto simp: main_def NewExporter_def split: sum.splits option.splits)
  have scope: "(is_fatal (main env) \<longleftrightarrow> isl (vault_api_NewClient env)) \<and>
      (\<forall>c. vault_api_NewClient env = Inr c \<longrightarrow>
         main env = Serving (init_state \<lparr>client = c\<rparr>))"
    if "kingpin_Parse env = Inr fl"
      and "\<forall>ex :: 'c Exporter.
             prometheus_Register env (fst (Exporter_Describe [] (init_state ex))) = None"
      and "http_Handle env (metricsPath fl) (http_DefaultServeMux env) = Inr mux"
      and "http_Handle env ''/'' mux = Inr mux'"
      and "http_ListenAndServe env (listenAddress fl) = None"
    for fl mux mux'
    using that by (cases "vault_api_NewClient env") (simp_all add: main_def NewExporter_def)
  have "\<forall>ex calls. \<exists>s'. serve calls (init_state ex) = Inr s'"
    using serve_total by blast
  with new fatalln scope show ?thesis by blast
qed

theorem NewExporter_only_fatal_error_witness:
  "main \<lparr>kingpin_Parse = Inr \<lparr>listenAddress = '':9107'', metricsPath = ''/metrics''\<rparr>,
         vault_api_NewClient = Inl (Error ''unable to parse VAULT_ADDR''),
         prometheus_Register = (\<lambda>ds. None),
         http_DefaultServeMux = [''/debug/pprof/''],
         http_Handle = (\<lambda>p m. if p = [] \<or> p \<in> set m
                                then Inl (Error ''http: multiple registrations'')
                                else Inr (m @ [p])),
         http_ListenAndServe = (\<lambda>a. None)\<rparr> =
     (Fatalln (Error ''unable to parse VAULT_ADDR'') :: unit outcome) \<and>
   main \<lparr>kingpin_Parse = Inr \<lparr>listenAddress = '':9107'', metricsPath = ''/metrics''\<rparr>,
         vault_api_NewClient = Inr (),
         prometheus_Register = (\<lambda>ds. None),
         http_DefaultServeMux = [''/debug/pprof/''],
         http_Handle = (\<lambda>p m. if p = [] \<or> p \<in> set m
                                then Inl (Error ''http: multiple registrations'')
                                else Inr (m @ [p])),
         http_ListenAndServe = (\<lambda>a. None)\<rparr> =
     Serving (init_state \<lparr>client = ()\<rparr>)"
proof -
  let ?handle = "\<lambda>p m. if p = [] \<or> p \<in> set m
                        then Inl (Error ''http: multiple registrations'')
                        else Inr (m @ [p])"
  let ?fl = "\<lparr>listenAddress = '':9107'', metricsPath = ''/metrics''\<rparr>"
  let ?env = "\<lambda>nc :: error + unit.
      \<lparr>kingpin_Parse = Inr ?fl, vault_api_NewClient = nc,
       prometheus_Register = (\<lambda>ds. None),
       http_DefaultServeMux = [''/debug/pprof/''],
       http_Handle = ?handle, http_ListenAndServe = (\<lambda>a. None)\<rparr>"
  have fails: "main (?env (Inl (Error ''unable to parse VAULT_ADDR''))) =
      Fatalln (Error ''unable to parse VAULT_ADDR'')"
    using NewExporter_only_fatal_error
      [of "Inl (Error ''unable to parse VAULT_ADDR'') :: error + unit"
          "?env (Inl (Error ''unable to parse VAULT_ADDR''))"]
    by (simp; blast)
  have serves: "main (?env (Inr ())) = Serving (init_state \<lparr>client = ()\<rparr>)"
    using NewExporter_only_fatal_error
      [of "Inr () :: error + unit" "?env (Inr ())"]
    by (simp; blast)
  from fails serves show ?thesis by simp
qed

text \<open>
  C9. \<open>Collect\<close> and \<open>Describe\<close> leave the exporter and the seven package-level descriptors
  as they were: a \<open>Collect\<close> that returns changes neither (in any state), \<open>Describe\<close>
  changes nothing at all, and every sequence of scrapes from the initial state returns with
  the exporter and the descriptors unchanged. What \<open>Collect\<close> sends is a function of the
  upstream answer and the descriptors only: two states with the same descriptors and the
  same answer give the same samples, whatever else (the log) differs.
\<close>

theorem scrapes_frame:
  "(\<forall>ms s'. Exporter_Collect Health ch s = Inr (ms, s') \<longrightarrow>
      exporter s' = exporter s \<and> vars s' = vars s) \<and>
   snd (Exporter_Describe dch s) = s \<and>
   (\<exists>s'. serve calls (init_state e) = Inr s' \<and>
      exporter s' = e \<and> vars s' = package_init) \<and>
   (vars t = vars s \<and> Health' (client (exporter t)) = Health (client (exporter s)) \<longrightarrow>
      map_sum id fst (Exporter_Collect Health' ch t) =
      map_sum id fst (Exporter_Collect Health ch s))"
proof -
  have "vars (init_state e) = package_init" and "exporter (init_state e) = e"
    by (simp_all add: init_state_def)
  with serve_init[of "init_state e" calls]
  have "\<exists>s'. serve calls (init_state e) = Inr s' \<and> exporter s' = e \<and> vars s' = package_init"
    by simp
  then show ?thesis
    using Collect_frame[of Health ch s] Describe_frame[of dch s]
      Collect_cong[of t s Health' Health ch]
    by blast
qed

theorem scrapes_frame_witness:
  "Exporter_Collect (\<lambda>c. Inl (Error ''connection refused'')) []
     (init_state \<lparr>client = ()\<rparr>) =
     Inr ([\<lparr>desc = up package_init, valType = GaugeValue, val = 0, labelPairs = []\<rparr>],
          \<lparr>exporter = \<lparr>client = ()\<rparr>, vars = package_init,
           logged = [Errorf ''Failted to collect health from Vault server: %v''
                       (Error ''connection refused'')]\<rparr>) \<and>
   exporter \<lparr>exporter = \<lparr>client = ()\<rparr>, vars = package_init,
            logged = [Errorf ''Failted to collect health from Vault server: %v''
                       (Error ''connection refused'')]\<rparr> =
     exporter (init_state \<lparr>client = ()\<rparr>) \<and>
   vars \<lparr>exporter = \<lparr>client = ()\<rparr>, vars = package_init,
        logged = [Errorf ''Failted to collect health from Vault server: %v''
                       (Error ''connection refused'')]\<rparr> =
     vars (init_state \<lparr>client = ()\<rparr>)"
proof -
  have run: "Exporter_Collect (\<lambda>c. Inl (Error ''connection refused'')) []
     (init_state \<lparr>client = ()\<rparr>) =
     Inr ([\<lparr>desc = up package_init, valType = GaugeValue, val = 0, labelPairs = []\<rparr>],
          \<lparr>exporter = \<lparr>client = ()\<rparr>, vars = package_init,
           logged = [Errorf ''Failted to collect health from Vault server: %v''
                       (Error ''connection refused'')]\<rparr>)"
    using Collect_Inl[of "init_state \<lparr>client = ()\<rparr>"
        "\<lambda>c. Inl (Error ''connection refused'')" "Error ''connection refused''" "[]"]
    by (simp add: init_state_def)
  with scrapes_frame[of "\<lambda>c. Inl (Error ''connection refused'')" "[]"
      "init_state \<lparr>client = ()\<rparr>" "[]" "[]" "\<lparr>client = ()\<rparr>"
      "init_state \<lparr>client = ()\<rparr>" "\<lambda>c. Inl (Error ''connection refused'')"]
  show ?thesis by simp
qed

text \<open>
  C10. With the descriptors as initialised, \<open>Collect\<close> never panics, for any upstream answer,
  empty strings included. Every sample carries as many label values as its descriptor has
  variable labels: none for up, initialized, sealed and standby, one for version,
  cluster_name and cluster_id; and on each of the seven descriptors \<open>MustNewConstMetric\<close>
  succeeds exactly for that number of label values.
\<close>

theorem Collect_total:
  assumes "vars s = package_init"
  shows "(\<exists>ms s'. Exporter_Collect Health ch s = Inr (ch @ ms, s') \<and>
            list_all (\<lambda>m. length (labelPairs m) = length (variableLabels (desc m))) ms) \<and>
         map (\<lambda>d. length (variableLabels d)) (fst (Exporter_Describe [] s)) =
           [0, 0, 0, 0, 1, 1, 1] \<and>
         (\<forall>d\<in>set (fst (Exporter_Describe [] s)). \<forall>t v lvs.
            (\<exists>m. MustNewConstMetric d t v lvs = Inr m) \<longleftrightarrow>
            length lvs = length (variableLabels d))"
proof -
  have "\<exists>ms s'. Exporter_Collect Health ch s = Inr (ch @ ms, s') \<and>
            list_all (\<lambda>m. length (labelPairs m) = length (variableLabels (desc m))) ms"
  proof (cases "Health (client (exporter s))")
    case (Inl e)
    with assms Collect_Inl[of s Health e ch] show ?thesis by (simp add: init_descs)
  next
    case (Inr h)
    with assms Collect_Inr[of s Health h ch] show ?thesis by (simp add: init_descs)
  qed
  moreover have "map (\<lambda>d. length (variableLabels d)) (fst (Exporter_Describe [] s)) =
           [0, 0, 0, 0, 1, 1, 1]"
    using assms by (simp add: Exporter_Describe_def init_descs)
  moreover have "\<forall>d\<in>set (fst (Exporter_Describe [] s)). \<forall>t v lvs.
            (\<exists>m. MustNewConstMetric d t v lvs = Inr m) \<longleftrightarrow>
            length lvs = length (variableLabels d)"
    using assms by (simp add: Exporter_Describe_def MustNewConstMetric_iff init_descs)
  ultimately show ?thesis by blast
qed

theorem Collect_total_witness:
  "vars (init_state \<lparr>client = ()\<rparr>) = package_init \<and>
   (\<exists>ms s'. Exporter_Collect
        (\<lambda>c. Inr \<lparr>Initialized = False, Sealed = False, Standby = False,
                    Version = [], ClusterName = [], ClusterID = []\<rparr>)
        [] (init_state \<lparr>client = ()\<rparr>) = Inr (ms, s'))"
  using Collect_total[of "init_state \<lparr>client = ()\<rparr>"
      "\<lambda>c. Inr \<lparr>Initialized = False, Sealed = False, Standby = False,
                  Version = [], ClusterName = [], ClusterID = []\<rparr>" "[]"]
  by (auto simp add: init_state_def)

end
